theory Spec2Isabelle
  imports Main
begin

section \<open>JavaScript values\<close>

text \<open>
  The checker of \<^verbatim>\<open>src/main.js\<close> receives two dynamically typed JavaScript values.
  The values it is specified for are \<^verbatim>\<open>null\<close>, strings, numbers, booleans, arrays and plain
  objects (records).

  \<^item> An array or a plain object is an object with an identity: \<^verbatim>\<open>===\<close> on two objects
    compares the identities, never the contents. An object node therefore carries a
    reference. Two nodes with one reference stand for one object, so they have one
    content; two object literals have two references.
  \<^item> An array is the list of its elements, without holes.
  \<^item> A record is the list of its own enumerable properties, in the order in which
    \<^verbatim>\<open>for (k in o)\<close> enumerates them; each key occurs once. Any string is a key,
    \<^verbatim>\<open>hasOwnProperty\<close> too.
  \<^item> A number is \<^verbatim>\<open>NaN\<close>, an infinity, or a finite double. The checker does three
    things with a number: \<^verbatim>\<open>typeof\<close>, \<^verbatim>\<open>===\<close> and the conversion to a string. A
    finite double is therefore given by the decimal number \<open>m \<times> 10\<^sup>e\<close> that JavaScript
    prints for it, the shortest decimal that reads back as that double: two doubles are
    \<^verbatim>\<open>===\<close> exactly when their decimals are equal in value (\<^verbatim>\<open>-0\<close> and \<^verbatim>\<open>0\<close> are
    \<^verbatim>\<open>===\<close> and both print as \<^verbatim>\<open>0\<close>, so they are one value here), and the string of
    a double is its decimal laid out by the rules of \<^verbatim>\<open>Number::toString\<close>.
  \<^item> \<^verbatim>\<open>undefined\<close> is what reading a missing element or property gives.
\<close>

type_synonym ref = nat

datatype number = NaN | Infinity | NegInfinity | Decimal int int

text \<open>
  The integer \<open>i\<close>, for the integers that a double holds and prints digit by digit
  (those up to \<open>2\<^sup>5\<^sup>3\<close> in absolute value).
\<close>

definition Whole :: "int \<Rightarrow> number" where
  "Whole i = Decimal i 0"

datatype jsval =
    Undefined
  | Null
  | Str string
  | Num number
  | Bool bool
  | Arr ref "jsval list"
  | Obj ref "(string \<times> jsval) list"

text \<open>\<^verbatim>\<open>typeof v\<close>.\<close>

fun typeof :: "jsval \<Rightarrow> string" where
  "typeof Undefined = ''undefined''"
| "typeof Null = ''object''"
| "typeof (Str s) = ''string''"
| "typeof (Num x) = ''number''"
| "typeof (Bool b) = ''boolean''"
| "typeof (Arr r xs) = ''object''"
| "typeof (Obj r ps) = ''object''"

text \<open>\<^verbatim>\<open>Array.isArray(v)\<close>.\<close>

fun isArray :: "jsval \<Rightarrow> bool" where
  "isArray (Arr r xs) = True"
| "isArray v = False"

text \<open>
  \<^verbatim>\<open>a === b\<close>: the same primitive value, or the same object. Two numbers are the same
  when neither is \<^verbatim>\<open>NaN\<close> and they have one value: \<^verbatim>\<open>NaN\<close> is not \<^verbatim>\<open>===\<close> to
  anything, itself included.
\<close>

fun same_number :: "number \<Rightarrow> number \<Rightarrow> bool" where
  "same_number Infinity Infinity = True"
| "same_number NegInfinity NegInfinity = True"
| "same_number (Decimal m e) (Decimal m' e') =
     (m * 10 ^ nat (e - e') = m' * 10 ^ nat (e' - e))"
| "same_number x y = False"

fun strict_eq :: "jsval \<Rightarrow> jsval \<Rightarrow> bool" where
  "strict_eq Undefined Undefined = True"
| "strict_eq Null Null = True"
| "strict_eq (Str s) (Str t) = (s = t)"
| "strict_eq (Num x) (Num y) = same_number x y"
| "strict_eq (Bool b) (Bool c) = (b = c)"
| "strict_eq (Arr r xs) (Arr r' ys) = (r = r')"
| "strict_eq (Obj r ps) (Obj r' qs) = (r = r')"
| "strict_eq v w = False"

text \<open>\<^verbatim>\<open>v.length\<close> and \<^verbatim>\<open>v[i]\<close> of an array.\<close>

fun elements :: "jsval \<Rightarrow> jsval list" where
  "elements (Arr r xs) = xs"
| "elements v = []"

definition index :: "jsval \<Rightarrow> nat \<Rightarrow> jsval" where
  "index v i = (if i < length (elements v) then elements v ! i else Undefined)"

text \<open>
  The own properties of a record, \<^verbatim>\<open>v[k]\<close>, and the keys that \<^verbatim>\<open>for (k in v)\<close>
  enumerates.
\<close>

fun properties :: "jsval \<Rightarrow> (string \<times> jsval) list" where
  "properties (Obj r ps) = ps"
| "properties v = []"

definition get :: "jsval \<Rightarrow> string \<Rightarrow> jsval" where
  "get v k = (case map_of (properties v) k of Some x \<Rightarrow> x | None \<Rightarrow> Undefined)"

definition keys_in :: "jsval \<Rightarrow> string list" where
  "keys_in v = map fst (properties v)"

subsection \<open>Conversion to strings\<close>

text \<open>
  String concatenation converts a number or a boolean operand to a string. \<open>digits\<close>
  are the decimal digits of a natural number.
\<close>

fun digits :: "nat \<Rightarrow> string" where
  "digits n = (if n < 10 then [''0123456789'' ! n]
               else digits (n div 10) @ [''0123456789'' ! (n mod 10)])"

declare digits.simps [simp del]

text \<open>
  \<^verbatim>\<open>Number::toString\<close> on the digits \<open>s\<close> of a finite number other than zero, which is
  \<open>0.s \<times> 10\<^sup>n\<close>: plain notation when \<open>n\<close> is between -5 and 21, with the zeros or the
  decimal point that \<open>n\<close> asks for, and exponent notation otherwise.
\<close>

definition layout :: "string \<Rightarrow> int \<Rightarrow> string" where
  "layout s n =
     (let k = int (length s) in
      if -5 \<le> n \<and> n \<le> 21 then
        (if k \<le> n then s @ replicate (nat (n - k)) (CHR ''0'')
         else if 0 < n then take (nat n) s @ ''.'' @ drop (nat n) s
         else ''0.'' @ replicate (nat (- n)) (CHR ''0'') @ s)
      else
        (let exponent = (if n - 1 < 0 then ''-'' else ''+'') @ digits (nat \<bar>n - 1\<bar>) in
         if k = 1 then s @ ''e'' @ exponent
         else take 1 s @ ''.'' @ drop 1 s @ ''e'' @ exponent))"

text \<open>
  The string of a number. The digits of \<open>m \<times> 10\<^sup>e\<close> are those of \<open>\<bar>m\<bar>\<close> without the
  zeros at their end, and the decimal point of \<open>0.s \<times> 10\<^sup>n\<close> is \<open>e\<close> places after the
  last digit of \<open>\<bar>m\<bar>\<close>.
\<close>

fun number_to_string :: "number \<Rightarrow> string" where
  "number_to_string NaN = ''NaN''"
| "number_to_string Infinity = ''Infinity''"
| "number_to_string NegInfinity = ''-Infinity''"
| "number_to_string (Decimal m e) =
     (if m = 0 then ''0''
      else
        (let all_digits = digits (nat \<bar>m\<bar>);
             s = rev (dropWhile (\<lambda>c. c = CHR ''0'') (rev all_digits))
         in (if m < 0 then ''-'' else []) @ layout s (int (length all_digits) + e)))"

text \<open>
  \<^verbatim>\<open>'' + v\<close>. The checker converts strings, numbers and booleans only (the operands
  of the Value Mismatch message). The other cases are JavaScript's: an array joins the
  conversions of its elements with commas, where \<^verbatim>\<open>null\<close> and \<^verbatim>\<open>undefined\<close> elements
  give the empty string.
\<close>

fun join :: "string list \<Rightarrow> string" where
  "join [] = []"
| "join [s] = s"
| "join (s # t # ts) = s @ '','' @ join (t # ts)"

fun to_string :: "jsval \<Rightarrow> string" where
  "to_string Undefined = ''undefined''"
| "to_string Null = ''null''"
| "to_string (Str s) = s"
| "to_string (Num x) = number_to_string x"
| "to_string (Bool b) = (if b then ''true'' else ''false'')"
| "to_string (Arr r xs) =
     join (map (\<lambda>x. if x = Null \<or> x = Undefined then [] else to_string x) xs)"
| "to_string (Obj r ps) = ''[object Object]''"

section \<open>The comparator\<close>

text \<open>
  A \<^verbatim>\<open>throw new Error(m)\<close> is the value \<open>Inl (Error m)\<close>, a normal return is
  \<open>Inr ()\<close>; \<^verbatim>\<open>error.message\<close> is \<open>message error\<close>. Every \<^verbatim>\<open>catch\<close> of the source
  reads the message of what it caught and nothing else, so a thrown value of any kind is
  given by its message.
\<close>

datatype error = Error (message: string)

text \<open>
  \<^verbatim>\<open>expected.hasOwnProperty(k)\<close> and \<^verbatim>\<open>actual.hasOwnProperty(k)\<close> look the method up
  on the compared object. A record with an own property named \<^verbatim>\<open>hasOwnProperty\<close> shadows
  the inherited method; the value of that property is no function (no value here is
  one), so the call throws a \<^verbatim>\<open>TypeError\<close>, whose message names the called expression,
  \<^verbatim>\<open>expected.hasOwnProperty is not a function\<close>. Otherwise the call says whether \<open>k\<close> is
  an own key. The first argument is the name of the variable that holds the object.
\<close>

definition hasOwnProperty :: "string \<Rightarrow> jsval \<Rightarrow> string \<Rightarrow> error + bool" where
  "hasOwnProperty name v k =
     (if map_of (properties v) ''hasOwnProperty'' \<noteq> None
      then Inl (Error (name @ ''.hasOwnProperty is not a function''))
      else Inr (map_of (properties v) k \<noteq> None))"

definition isPrimitive :: "jsval \<Rightarrow> bool" where
  "isPrimitive expected \<longleftrightarrow>
     typeof expected = ''string'' \<or> typeof expected = ''number'' \<or> typeof expected = ''boolean''"

definition getTypeName :: "jsval \<Rightarrow> string" where
  "getTypeName v =
     (if isArray v then ''Array''
      else if typeof v = ''object'' then (if strict_eq v Null then ''null'' else ''Object'')
      else typeof v)"

definition emitTypeError :: "jsval \<Rightarrow> jsval \<Rightarrow> error + unit" where
  "emitTypeError expected actual =
     Inl (Error (''type '' @ getTypeName expected @ '' but found type '' @ getTypeName actual))"

text \<open>
  The divider that both \<^verbatim>\<open>catch\<close> blocks compute from the expected child:
  \<^verbatim>\<open>isPrimitive(expected[i]) ? ' ' : Array.isArray(expected[i]) ? '' : '.'\<close>.
\<close>

definition divider :: "jsval \<Rightarrow> string" where
  "divider child = (if isPrimitive child then '' '' else if isArray child then [] else ''.'')"

text \<open>
  The second loop of the record branch calls nothing recursively:
  \<^verbatim>\<open>for (i in actual) if (actual.hasOwnProperty(i)) if (!expected.hasOwnProperty(i)) throw ...\<close>.
  The list is what remains to be enumerated of the keys of \<^verbatim>\<open>actual\<close>.
\<close>

fun extra_loop :: "jsval \<Rightarrow> jsval \<Rightarrow> string list \<Rightarrow> error + unit" where
  "extra_loop expected actual [] = Inr ()"
| "extra_loop expected actual (i # rest) =
     (case hasOwnProperty ''actual'' actual i of
        Inl error \<Rightarrow> Inl error
      | Inr own \<Rightarrow>
          if own then
            (case hasOwnProperty ''expected'' expected i of
               Inl error \<Rightarrow> Inl error
             | Inr found \<Rightarrow>
                 if \<not> found then Inl (Error (i @ '' to be missing but was found''))
                 else extra_loop expected actual rest)
          else extra_loop expected actual rest)"

text \<open>
  \<^verbatim>\<open>_assertEquals\<close>, with its two loops that call it back: \<open>array_loop\<close> is the
  \<^verbatim>\<open>for (i = 0, ii = expected.length; i < ii; i++)\<close> loop from index \<open>i\<close> on, and
  \<open>props_loop\<close> is the \<^verbatim>\<open>for (i in expected)\<close> loop over the keys that remain. The checks
  are in the order of the source; a \<^verbatim>\<open>throw\<close> leaves the function, so each check is
  reached only if the ones before it did not throw. An error of a \<^verbatim>\<open>hasOwnProperty\<close>
  call is thrown outside the \<^verbatim>\<open>try\<close> blocks of its own level, so it leaves the function
  as it is.
\<close>

function (sequential)
    inner_assertEquals :: "jsval \<Rightarrow> jsval \<Rightarrow> error + unit"
and array_loop :: "jsval \<Rightarrow> jsval \<Rightarrow> nat \<Rightarrow> error + unit"
and props_loop :: "jsval \<Rightarrow> jsval \<Rightarrow> string list \<Rightarrow> error + unit"
where
  "inner_assertEquals expected actual =
     (if strict_eq expected actual then Inr ()
      else if typeof expected \<noteq> typeof actual then emitTypeError expected actual
      else if isPrimitive expected \<and> \<not> strict_eq expected actual
        then Inl (Error (''\"'' @ to_string expected @ ''\" but found \"'' @ to_string actual @ ''\"''))
      else if strict_eq expected Null \<and> \<not> strict_eq actual Null
        then emitTypeError expected actual
      else if \<not> strict_eq expected Null \<and> strict_eq actual Null
        then emitTypeError expected actual
      else if isArray expected = True \<and> isArray actual = True then
        (if length (elements expected) \<noteq> length (elements actual)
         then Inl (Error (''Array length '' @ digits (length (elements expected))
                          @ '' but found '' @ digits (length (elements actual))))
         else array_loop expected actual 0)
      else if isArray expected \<and> \<not> isArray actual then emitTypeError expected actual
      else if \<not> isArray expected \<and> isArray actual then emitTypeError expected actual
      else if typeof expected = ''object'' then
        (case props_loop expected actual (keys_in expected) of
           Inl error \<Rightarrow> Inl error
         | Inr u \<Rightarrow> extra_loop expected actual (keys_in actual))
      else Inr ())"
| "array_loop expected actual i =
     (if i < length (elements expected) then
        (case inner_assertEquals (index expected i) (index actual i) of
           Inl error \<Rightarrow>
             Inl (Error (''['' @ digits i @ '']'' @ divider (index expected i) @ message error))
         | Inr u \<Rightarrow> array_loop expected actual (i + 1))
      else Inr ())"
| "props_loop expected actual [] = Inr ()"
| "props_loop expected actual (i # rest) =
     (case hasOwnProperty ''expected'' expected i of
        Inl error \<Rightarrow> Inl error
      | Inr own \<Rightarrow>
          if own then
            (case hasOwnProperty ''actual'' actual i of
               Inl error \<Rightarrow> Inl error
             | Inr found \<Rightarrow>
                 if \<not> found then Inl (Error (i @ '' but was not found''))
                 else
                   (case inner_assertEquals (get expected i) (get actual i) of
                      Inl error \<Rightarrow>
                        Inl (Error (i @ divider (get expected i) @ message error))
                    | Inr u \<Rightarrow> props_loop expected actual rest))
          else props_loop expected actual rest)"
  by pat_completeness auto

text \<open>
  Termination: a value is a finite tree, and each call back is on a child of
  \<^verbatim>\<open>expected\<close>; within one value the loops count up to its length and down its keys.
\<close>

termination
proof -
  have size_index: "size (index v i) < size v" if "i < length (elements v)" for v i
  proof (cases v)
    case (Arr r xs)
    with that have "xs ! i \<in> set xs" by simp
    then have "size (xs ! i) \<le> size_list size xs"
      by (rule size_list_estimation') simp
    with Arr that show ?thesis by (simp add: index_def)
  qed (use that in simp_all)
  have size_get: "size (get v k) < size v" if "hasOwnProperty name v k = Inr True" for name v k
  proof (cases v)
    case (Obj r ps)
    with that obtain x where x: "map_of ps k = Some x"
      by (auto simp: hasOwnProperty_def split: if_splits)
    then have "(k, x) \<in> set ps" by (rule map_of_SomeD)
    then have "size_prod (\<lambda>_. 0) size (k, x) \<le> size_list (size_prod (\<lambda>_. 0) size) ps"
      by (rule size_list_estimation') simp
    with Obj x show ?thesis by (simp add: get_def)
  qed (use that in \<open>simp_all add: hasOwnProperty_def\<close>)
  show ?thesis
    by (relation "inv_image (less_than <*lex*> less_than)
          (\<lambda>c. case c of
             Inl (expected, actual) \<Rightarrow>
               (size expected, length (elements expected) + length (properties expected) + 1)
           | Inr (Inl (expected, actual, i)) \<Rightarrow> (size expected, length (elements expected) - i)
           | Inr (Inr (expected, actual, rest)) \<Rightarrow> (size expected, length rest))")
       (auto simp: size_index size_get keys_in_def)
qed

declare inner_assertEquals.simps [simp del] array_loop.simps [simp del]

section \<open>The assertion wrapper and the test runner\<close>

text \<open>
  \<^verbatim>\<open>assertEquals\<close> catches whatever \<^verbatim>\<open>_assertEquals\<close> throws and throws a new error
  with the decorated message; \<^verbatim>\<open>runTest\<close> catches that one and pushes its message on
  the list of failures, which it leaves as it is otherwise. \<^verbatim>\<open>runTest\<close> returns the list
  after the call.
\<close>

definition assertEquals :: "string \<Rightarrow> jsval \<Rightarrow> jsval \<Rightarrow> error + unit" where
  "assertEquals msg expected actual =
     (case inner_assertEquals expected actual of
        Inl error \<Rightarrow> Inl (Error (msg @ '' Expected '' @ message error))
      | Inr u \<Rightarrow> Inr ())"

definition runTest :: "string \<Rightarrow> string list \<Rightarrow> jsval \<Rightarrow> jsval \<Rightarrow> error + string list" where
  "runTest msg assertionFailures expected actual =
     (case assertEquals msg expected actual of
        Inl failure \<Rightarrow> Inr (assertionFailures @ [message failure])
      | Inr u \<Rightarrow> Inr assertionFailures)"

subsection \<open>The objects of \<^verbatim>\<open>runAll\<close>\<close>

text \<open>
  Each object or array literal of \<^verbatim>\<open>runAll\<close> creates an object of its own, so each has
  its own reference.
\<close>

definition complexObject1 :: jsval where
  "complexObject1 =
     Obj 1 [(''propA'', Num (Whole 1)),
            (''propB'', Obj 2
               [(''propA'', Arr 3 [Num (Whole 1),
                                   Obj 4 [(''propA'', Str ''a''), (''propB'', Str ''b'')],
                                   Num (Whole 3)]),
                (''propB'', Num (Whole 1)),
                (''propC'', Num (Whole 2))])]"

definition complexObject1Copy :: jsval where
  "complexObject1Copy =
     Obj 5 [(''propA'', Num (Whole 1)),
            (''propB'', Obj 6
               [(''propA'', Arr 7 [Num (Whole 1),
                                   Obj 8 [(''propA'', Str ''a''), (''propB'', Str ''b'')],
                                   Num (Whole 3)]),
                (''propB'', Num (Whole 1)),
                (''propC'', Num (Whole 2))])]"

definition complexObject2 :: jsval where
  "complexObject2 =
     Obj 9 [(''propA'', Num (Whole 1)),
            (''propB'', Obj 10
               [(''propB'', Num (Whole 1)),
                (''propA'', Arr 11 [Num (Whole 1),
                                    Obj 12 [(''propA'', Str ''a''), (''propB'', Str ''c'')],
                                    Num (Whole 3)]),
                (''propC'', Num (Whole 2))])]"


section \<open>The shapes of the specification\<close>

text \<open>
  The specification classifies a value as null, array, record, primitive string,
  primitive number or primitive boolean, and names the classes in a Type Mismatch
  message. This classification is the specification's; the source has \<^verbatim>\<open>typeof\<close>,
  \<^verbatim>\<open>Array.isArray\<close> and \<^verbatim>\<open>getTypeName\<close>. \<^verbatim>\<open>undefined\<close>, which is none of the
  specified values, is a class of its own.
\<close>

datatype shape =
    Null_shape
  | Array_shape
  | Record_shape
  | String_shape
  | Number_shape
  | Boolean_shape
  | Undefined_shape

fun classify :: "jsval \<Rightarrow> shape" where
  "classify Undefined = Undefined_shape"
| "classify Null = Null_shape"
| "classify (Str s) = String_shape"
| "classify (Num x) = Number_shape"
| "classify (Bool b) = Boolean_shape"
| "classify (Arr r xs) = Array_shape"
| "classify (Obj r ps) = Record_shape"

fun shape_name :: "shape \<Rightarrow> string" where
  "shape_name Null_shape = ''null''"
| "shape_name Array_shape = ''Array''"
| "shape_name Record_shape = ''Object''"
| "shape_name String_shape = ''string''"
| "shape_name Number_shape = ''number''"
| "shape_name Boolean_shape = ''boolean''"
| "shape_name Undefined_shape = ''undefined''"

text \<open>
  The specification calls two values structurally identical when they are the same
  tree: the same primitives, arrays with the same elements in order, records with the
  same keys (in any order) and the same values, whichever objects hold them.
  \<open>nan_free\<close> says that no number in a value is \<^verbatim>\<open>NaN\<close>.
\<close>

fun same_structure :: "jsval \<Rightarrow> jsval \<Rightarrow> bool" where
  "same_structure (Arr r xs) (Arr r' ys) = list_all2 same_structure xs ys"
| "same_structure (Obj r ps) (Obj r' qs) =
     (list_all (\<lambda>(k, v). case map_of qs k of Some w \<Rightarrow> same_structure v w | None \<Rightarrow> False) ps
      \<and> list_all (\<lambda>(k, w). map_of ps k \<noteq> None) qs)"
| "same_structure v w = (v = w)"

fun nan_free :: "jsval \<Rightarrow> bool" where
  "nan_free (Num x) = (x \<noteq> NaN)"
| "nan_free (Arr r xs) = list_all nan_free xs"
| "nan_free (Obj r ps) = list_all (\<lambda>(k, v). nan_free v) ps"
| "nan_free v = True"

text \<open>
  \<open>unshadowed\<close> says that no record in a value has an own property named
  \<^verbatim>\<open>hasOwnProperty\<close>.
\<close>

fun unshadowed :: "jsval \<Rightarrow> bool" where
  "unshadowed (Arr r xs) = list_all unshadowed xs"
| "unshadowed (Obj r ps) =
     (map_of ps ''hasOwnProperty'' = None \<and> list_all (\<lambda>(k, v). unshadowed v) ps)"
| "unshadowed v = True"

section \<open>Numbers as strings\<close>

text \<open>
  Some numbers and their strings: integers, the first integer in exponent notation,
  fractions, the smallest fraction in plain notation and the largest in exponent
  notation, \<open>2\<^sup>6\<^sup>0\<close> (which prints with the seventeen digits that identify it), and the
  largest double. Two decimals of one value are one number.
\<close>

lemma zeros_numeral:
  "replicate (numeral k) (CHR ''0'') = CHR ''0'' # replicate (pred_numeral k) (CHR ''0'')"
  by (simp add: numeral_eq_Suc)

lemma number_to_string_examples:
  "number_to_string (Whole 1) = ''1''"
  "number_to_string (Whole (- 12300)) = ''-12300''"
  "number_to_string (Whole (10 ^ 21)) = ''1e+21''"
  "number_to_string (Decimal 5 (- 1)) = ''0.5''"
  "number_to_string (Decimal (- 123456) (- 3)) = ''-123.456''"
  "number_to_string (Decimal 1 (- 6)) = ''0.000001''"
  "number_to_string (Decimal 1 (- 7)) = ''1e-7''"
  "number_to_string (Decimal 1152921504606847 3) = ''1152921504606847000''"
  "number_to_string (Decimal 17976931348623157 292) = ''1.7976931348623157e+308''"
  "number_to_string (Decimal 0 7) = ''0''"
  by (simp_all add: Whole_def layout_def digits.simps zeros_numeral)

lemma same_number_examples:
  "same_number (Decimal 10 0) (Decimal 1 1)"
  "same_number (Decimal 5 (- 1)) (Decimal 50 (- 2))"
  "\<not> same_number (Decimal 5 (- 1)) (Whole 5)"
  "\<not> same_number NaN NaN"
  by (simp_all add: Whole_def)

section \<open>Type and value mismatches\<close>

text \<open>The name that \<^verbatim>\<open>getTypeName\<close> computes is the name of the specification's class.\<close>

lemma getTypeName_classify: "getTypeName v = shape_name (classify v)"
  by (cases v) (simp_all add: getTypeName_def)

text \<open>
  Claim C2. Two values of different shapes give a Type Mismatch that names the two
  shapes, whatever the values are: the number 1 and the string "1" convert to the same
  string and still give a Type Mismatch, and \<^verbatim>\<open>null\<close> against an empty record gives
  \<^verbatim>\<open>type null but found type Object\<close>.
\<close>

theorem type_mismatch_first:
  "(classify expected \<noteq> classify actual \<longrightarrow>
      inner_assertEquals expected actual =
        Inl (Error (''type '' @ shape_name (classify expected)
                    @ '' but found type '' @ shape_name (classify actual))))
   \<and> to_string (Num (Whole 1)) = to_string (Str ''1'')
   \<and> inner_assertEquals (Num (Whole 1)) (Str ''1'') =
        Inl (Error ''type number but found type string'')
   \<and> inner_assertEquals Null (Obj r []) = Inl (Error ''type null but found type Object'')"
proof (intro conjI impI)
  assume "classify expected \<noteq> classify actual"
  then show "inner_assertEquals expected actual =
        Inl (Error (''type '' @ shape_name (classify expected)
                    @ '' but found type '' @ shape_name (classify actual)))"
    by (cases expected; cases actual)
       (simp_all add: inner_assertEquals.simps emitTypeError_def getTypeName_def isPrimitive_def)
next
  show "to_string (Num (Whole 1)) = to_string (Str ''1'')"
    by (simp add: Whole_def layout_def digits.simps)
next
  show "inner_assertEquals (Num (Whole 1)) (Str ''1'') =
          Inl (Error ''type number but found type string'')"
    by (simp add: inner_assertEquals.simps emitTypeError_def getTypeName_def)
next
  show "inner_assertEquals Null (Obj r []) = Inl (Error ''type null but found type Object'')"
    by (simp add: inner_assertEquals.simps emitTypeError_def getTypeName_def isPrimitive_def)
qed

theorem type_mismatch_first_witness:
  "classify (Arr 1 [Str ''a'']) \<noteq> classify (Obj 2 [(''0'', Str ''a'')])
   \<and> inner_assertEquals (Arr 1 [Str ''a'']) (Obj 2 [(''0'', Str ''a'')]) =
       Inl (Error ''type Array but found type Object'')"
  using type_mismatch_first [of "Arr 1 [Str ''a'']" "Obj 2 [(''0'', Str ''a'')]"]
  by simp

text \<open>
  Claim C5. Two primitives of one kind that are not \<^verbatim>\<open>===\<close> give a Value Mismatch
  whose message quotes the expected value, then the actual one, each converted to a
  string as JavaScript converts it; \<^verbatim>\<open>"abcdef"\<close> against \<^verbatim>\<open>"abc"\<close> gives
  \<^verbatim>\<open>"abcdef" but found "abc"\<close>. The witness has integers, \<^verbatim>\<open>1e21\<close>, a fraction, an
  infinity and booleans.
\<close>

theorem value_mismatch_message:
  "(isPrimitive expected \<and> typeof actual = typeof expected \<and> \<not> strict_eq expected actual \<longrightarrow>
      inner_assertEquals expected actual =
        Inl (Error (''\"'' @ to_string expected @ ''\" but found \"'' @ to_string actual @ ''\"'')))
   \<and> inner_assertEquals (Str ''abcdef'') (Str ''abc'') =
        Inl (Error ''\"abcdef\" but found \"abc\"'')"
  by (simp add: inner_assertEquals.simps isPrimitive_def)

theorem value_mismatch_message_witness:
  "isPrimitive (Num (Whole 1)) \<and> typeof (Num (Whole 2)) = typeof (Num (Whole 1))
   \<and> \<not> strict_eq (Num (Whole 1)) (Num (Whole 2))
   \<and> inner_assertEquals (Num (Whole 1)) (Num (Whole 2)) = Inl (Error ''\"1\" but found \"2\"'')
   \<and> inner_assertEquals (Num (Whole (10 ^ 21))) (Num (Whole 1)) =
       Inl (Error ''\"1e+21\" but found \"1\"'')
   \<and> inner_assertEquals (Num (Decimal 5 (- 1))) (Num NegInfinity) =
       Inl (Error ''\"0.5\" but found \"-Infinity\"'')
   \<and> inner_assertEquals (Bool True) (Bool False) = Inl (Error ''\"true\" but found \"false\"'')"
  using value_mismatch_message [of "Num (Whole 1)" "Num (Whole 2)"]
    value_mismatch_message [of "Num (Whole (10 ^ 21))" "Num (Whole 1)"]
    value_mismatch_message [of "Num (Decimal 5 (- 1))" "Num NegInfinity"]
    value_mismatch_message [of "Bool True" "Bool False"]
  by (simp add: isPrimitive_def Whole_def layout_def digits.simps)

text \<open>
  Claim C10. \<^verbatim>\<open>NaN\<close> is not \<^verbatim>\<open>===\<close> to itself, so comparing \<^verbatim>\<open>NaN\<close> with \<^verbatim>\<open>NaN\<close>
  passes the identity check, fails the primitive check and gives the Value Mismatch
  \<^verbatim>\<open>"NaN" but found "NaN"\<close>.
\<close>

theorem nan_differs_from_itself:
  "\<not> strict_eq (Num NaN) (Num NaN)
   \<and> inner_assertEquals (Num NaN) (Num NaN) = Inl (Error ''\"NaN\" but found \"NaN\"'')"
  by (simp add: inner_assertEquals.simps isPrimitive_def)

section \<open>A value compared with itself\<close>

lemma same_number_refl: "x \<noteq> NaN \<Longrightarrow> same_number x x"
  by (cases x) simp_all

lemma strict_eq_refl: "v \<noteq> Num NaN \<Longrightarrow> strict_eq v v"
  by (cases v) (auto simp: same_number_refl)

text \<open>
  Claim C3, as amended. A value compared with itself gives no discrepancy, unless it is
  the number \<^verbatim>\<open>NaN\<close>: the identity check \<^verbatim>\<open>expected === actual\<close> returns at once.
  An array or a record that holds \<^verbatim>\<open>NaN\<close> is still one object, so it too is equal
  to itself.
\<close>

theorem reflexive_except_nan:
  "v \<noteq> Num NaN \<Longrightarrow> inner_assertEquals v v = Inr ()"
  by (simp add: inner_assertEquals.simps strict_eq_refl)

theorem reflexive_except_nan_witness:
  "Arr 1 [Num NaN] \<noteq> Num NaN \<and> inner_assertEquals (Arr 1 [Num NaN]) (Arr 1 [Num NaN]) = Inr ()
   \<and> complexObject1 \<noteq> Num NaN \<and> inner_assertEquals complexObject1 complexObject1 = Inr ()"
  using reflexive_except_nan [of "Arr 1 [Num NaN]"] reflexive_except_nan [of complexObject1]
  by (simp add: complexObject1_def)

text \<open>
  Claim C3 as it is stated, for every value, fails at \<^verbatim>\<open>NaN\<close>, which is a number:
  the comparison of \<^verbatim>\<open>NaN\<close> with itself throws.
\<close>

theorem reflexivity_counterexample:
  "inner_assertEquals (Num NaN) (Num NaN) \<noteq> Inr ()"
  by (simp add: inner_assertEquals.simps isPrimitive_def)

section \<open>Arrays\<close>

text \<open>
  Two arrays that are not one object (one array has one length and one list of
  elements, so two arrays that differ anywhere have two references) reach the array
  branch: the lengths are compared, then the loop starts at index 0.
\<close>

lemma inner_arrays:
  "r \<noteq> r' \<Longrightarrow>
   inner_assertEquals (Arr r es) (Arr r' as) =
     (if length es \<noteq> length as
      then Inl (Error (''Array length '' @ digits (length es) @ '' but found '' @ digits (length as)))
      else array_loop (Arr r es) (Arr r' as) 0)"
  by (simp add: inner_assertEquals.simps isPrimitive_def)

text \<open>
  The loop from \<open>k\<close> on throws at the first index \<open>i\<close> whose elements do not compare
  equal, with the path segment and the divider of the expected element; it returns if
  there is none.
\<close>

lemma array_loop_first_failure:
  assumes "i < length (elements expected)"
    and "\<forall>j. k \<le> j \<and> j < i \<longrightarrow> inner_assertEquals (index expected j) (index actual j) = Inr ()"
    and "inner_assertEquals (index expected i) (index actual i) = Inl error"
    and "k \<le> i"
  shows "array_loop expected actual k =
           Inl (Error (''['' @ digits i @ '']'' @ divider (index expected i) @ message error))"
  using assms
proof (induction "i - k" arbitrary: k)
  case 0
  then have "k = i" by simp
  with 0 show ?case by (simp add: array_loop.simps [of expected actual i])
next
  case (Suc n)
  then have "k < i" by simp
  with Suc.prems have here: "inner_assertEquals (index expected k) (index actual k) = Inr ()"
    by simp
  have "array_loop expected actual (k + 1) =
          Inl (Error (''['' @ digits i @ '']'' @ divider (index expected i) @ message error))"
    using Suc.hyps(2) Suc.prems \<open>k < i\<close> by (intro Suc.hyps(1)) auto
  with here \<open>k < i\<close> Suc.prems(1) show ?case
    by (simp add: array_loop.simps [of expected actual k])
qed

lemma array_loop_all_equal:
  assumes "\<forall>j. k \<le> j \<and> j < length (elements expected) \<longrightarrow>
             inner_assertEquals (index expected j) (index actual j) = Inr ()"
  shows "array_loop expected actual k = Inr ()"
  using assms
proof (induction "length (elements expected) - k" arbitrary: k)
  case 0
  then show ?case by (simp add: array_loop.simps [of expected actual k])
next
  case (Suc n)
  then have "array_loop expected actual (k + 1) = Inr ()" by (intro Suc.hyps(1)) auto
  with Suc.prems Suc.hyps(2) show ?case
    by (simp add: array_loop.simps [of expected actual k])
qed

lemma index_Arr_append: "n = length pre \<Longrightarrow> index (Arr r (pre @ e # post)) n = e"
  by (simp add: index_def)

lemma index_Arr_prefix: "j < length pre \<Longrightarrow> index (Arr r (pre @ rest)) j = pre ! j"
  by (simp add: index_def nth_append)

lemma arrays_first_failure:
  assumes "r \<noteq> r'" and "length post = length post'"
    and "list_all2 (\<lambda>x y. inner_assertEquals x y = Inr ()) pre pre'"
    and "inner_assertEquals e a = Inl error"
  shows "inner_assertEquals (Arr r (pre @ e # post)) (Arr r' (pre' @ a # post')) =
           Inl (Error (''['' @ digits (length pre) @ '']'' @ divider e @ message error))"
proof -
  let ?expected = "Arr r (pre @ e # post)" and ?actual = "Arr r' (pre' @ a # post')"
  from assms(3) have len: "length pre = length pre'"
    and eq: "\<And>j. j < length pre \<Longrightarrow> inner_assertEquals (pre ! j) (pre' ! j) = Inr ()"
    by (simp_all add: list_all2_conv_all_nth)
  have "array_loop ?expected ?actual 0 =
          Inl (Error (''['' @ digits (length pre) @ '']''
                      @ divider (index ?expected (length pre)) @ message error))"
  proof (rule array_loop_first_failure)
    show "length pre < length (elements ?expected)" by simp
    show "\<forall>j. 0 \<le> j \<and> j < length pre \<longrightarrow>
            inner_assertEquals (index ?expected j) (index ?actual j) = Inr ()"
      using eq len by (simp add: index_Arr_prefix)
    show "inner_assertEquals (index ?expected (length pre)) (index ?actual (length pre)) = Inl error"
      using assms(4) len by (simp add: index_Arr_append)
  qed simp
  with assms(1,2) len show ?thesis
    by (simp add: inner_arrays index_Arr_append)
qed

text \<open>
  Claim C8. Two arrays of different lengths give the Length Mismatch
  \<^verbatim>\<open>Array length n but found m\<close>, whatever their elements are;
  \<^verbatim>\<open>["a","b"]\<close> against \<^verbatim>\<open>["a","b","c"]\<close> gives \<^verbatim>\<open>Array length 2 but found 3\<close>.
\<close>

theorem length_mismatch_message:
  "(r \<noteq> r' \<and> length es \<noteq> length as \<longrightarrow>
      inner_assertEquals (Arr r es) (Arr r' as) =
        Inl (Error (''Array length '' @ digits (length es) @ '' but found '' @ digits (length as))))
   \<and> inner_assertEquals (Arr 1 [Str ''a'', Str ''b'']) (Arr 2 [Str ''a'', Str ''b'', Str ''c'']) =
        Inl (Error ''Array length 2 but found 3'')"
  by (simp add: inner_arrays digits.simps)

theorem length_mismatch_message_witness:
  "(3::nat) \<noteq> 4 \<and> length [Num NaN, Null] \<noteq> length ([] :: jsval list)
   \<and> inner_assertEquals (Arr 3 [Num NaN, Null]) (Arr 4 []) =
       Inl (Error ''Array length 2 but found 0'')"
  using length_mismatch_message [of 3 4 "[Num NaN, Null]" "[]"]
  by (simp add: digits.simps)

text \<open>
  Claim C4. When the elements before index \<open>i\<close> compare equal and those at \<open>i\<close> do not,
  the discrepancy of index \<open>i\<close> is the result, whatever the elements after \<open>i\<close> are
  (\<open>post\<close> and \<open>post'\<close> are any two lists of one length): they are not looked at.
  The witness is a pair of arrays that differ at indices 2 and 5.
\<close>

theorem array_first_failure_only:
  assumes "r \<noteq> r'" and "length post = length post'"
    and "list_all2 (\<lambda>x y. inner_assertEquals x y = Inr ()) pre pre'"
    and "inner_assertEquals e a = Inl error"
  shows "inner_assertEquals (Arr r (pre @ e # post)) (Arr r' (pre' @ a # post')) =
           Inl (Error (''['' @ digits (length pre) @ '']'' @ divider e @ message error))"
  using assms by (rule arrays_first_failure)

theorem array_first_failure_only_witness:
  "(1::nat) \<noteq> 2
   \<and> length [Str ''d'', Str ''e'', Str ''f''] = length [Str ''d'', Str ''e'', Str ''y'']
   \<and> list_all2 (\<lambda>x y. inner_assertEquals x y = Inr ()) [Str ''a'', Str ''b''] [Str ''a'', Str ''b'']
   \<and> inner_assertEquals (Str ''c'') (Str ''x'') = Inl (Error ''\"c\" but found \"x\"'')
   \<and> inner_assertEquals (Str ''f'') (Str ''y'') = Inl (Error ''\"f\" but found \"y\"'')
   \<and> inner_assertEquals
        (Arr 1 [Str ''a'', Str ''b'', Str ''c'', Str ''d'', Str ''e'', Str ''f''])
        (Arr 2 [Str ''a'', Str ''b'', Str ''x'', Str ''d'', Str ''e'', Str ''y'']) =
       Inl (Error ''[2] \"c\" but found \"x\"'')"
proof -
  have eq: "list_all2 (\<lambda>x y. inner_assertEquals x y = Inr ()) [Str ''a'', Str ''b''] [Str ''a'', Str ''b'']"
    by (simp add: inner_assertEquals.simps)
  have c: "inner_assertEquals (Str ''c'') (Str ''x'') = Inl (Error ''\"c\" but found \"x\"'')"
    by (simp add: inner_assertEquals.simps isPrimitive_def)
  have f: "inner_assertEquals (Str ''f'') (Str ''y'') = Inl (Error ''\"f\" but found \"y\"'')"
    by (simp add: inner_assertEquals.simps isPrimitive_def)
  have "inner_assertEquals
        (Arr 1 ([Str ''a'', Str ''b''] @ Str ''c'' # [Str ''d'', Str ''e'', Str ''f'']))
        (Arr 2 ([Str ''a'', Str ''b''] @ Str ''x'' # [Str ''d'', Str ''e'', Str ''y''])) =
       Inl (Error (''['' @ digits (length [Str ''a'', Str ''b'']) @ '']'' @ divider (Str ''c'')
          @ message (Error ''\"c\" but found \"x\"'')))"
    by (rule array_first_failure_only [OF _ _ eq c]) simp_all
  then show ?thesis using eq c f
    by (simp add: digits.simps divider_def isPrimitive_def)
qed

section \<open>The wrapper\<close>

text \<open>
  Claim C9. \<^verbatim>\<open>runTest\<close> always returns. When the comparison throws an error with
  message \<open>m\<close>, \<^verbatim>\<open>assertEquals\<close> throws \<^verbatim>\<open>label + ' Expected ' + m\<close> and
  \<^verbatim>\<open>runTest\<close> appends that string, and nothing else, to the list of failures; when the
  comparison returns, \<^verbatim>\<open>assertEquals\<close> returns and the list is as it was.
\<close>

theorem runTest_appends_failure:
  "(inner_assertEquals expected actual = Inl (Error m) \<longrightarrow>
      assertEquals label expected actual = Inl (Error (label @ '' Expected '' @ m))
      \<and> runTest label sink expected actual = Inr (sink @ [label @ '' Expected '' @ m]))
   \<and> (inner_assertEquals expected actual = Inr () \<longrightarrow>
      assertEquals label expected actual = Inr ()
      \<and> runTest label sink expected actual = Inr sink)
   \<and> (\<exists>sink'. runTest label sink expected actual = Inr sink')"
  by (simp add: runTest_def assertEquals_def split: sum.splits)


theorem runTest_appends_failure_witness:
  "inner_assertEquals (Str ''abcdef'') (Str ''abc'') = Inl (Error ''\"abcdef\" but found \"abc\"'')
   \<and> runTest ''Test 02: '' [] (Str ''abcdef'') (Str ''abc'') =
       Inr [''Test 02:  Expected \"abcdef\" but found \"abc\"'']
   \<and> inner_assertEquals (Str ''abc'') (Str ''abc'') = Inr ()
   \<and> assertEquals ''Test 01: '' (Str ''abc'') (Str ''abc'') = Inr ()
   \<and> runTest ''Test 01: '' [''earlier''] (Str ''abc'') (Str ''abc'') = Inr [''earlier'']"
proof -
  have differ: "inner_assertEquals (Str ''abcdef'') (Str ''abc'') =
      Inl (Error ''\"abcdef\" but found \"abc\"'')"
    by (simp add: inner_assertEquals.simps isPrimitive_def)
  have same: "inner_assertEquals (Str ''abc'') (Str ''abc'') = Inr ()"
    by (simp add: inner_assertEquals.simps)
  from differ same
    runTest_appends_failure [of "Str ''abcdef''" "Str ''abc''" "''\"abcdef\" but found \"abc\"''"
      "''Test 02: ''" "[]"]
    runTest_appends_failure [of "Str ''abc''" "Str ''abc''" "[]" "''Test 01: ''" "[''earlier'']"]
  show ?thesis by simp
qed

section \<open>Records\<close>

text \<open>
  Two records that are not one object reach the record branch: the loop over the keys
  of \<^verbatim>\<open>expected\<close> runs first, and the loop over the keys of \<^verbatim>\<open>actual\<close> runs only if
  the first one did not throw.
\<close>

lemma inner_records:
  "r \<noteq> r' \<Longrightarrow>
   inner_assertEquals (Obj r ps) (Obj r' qs) =
     (case props_loop (Obj r ps) (Obj r' qs) (map fst ps) of
        Inl error \<Rightarrow> Inl error
      | Inr u \<Rightarrow> extra_loop (Obj r ps) (Obj r' qs) (map fst qs))"
  by (simp add: inner_assertEquals.simps isPrimitive_def keys_in_def cong: sum.case_cong)

text \<open>
  On a record without an own property named \<^verbatim>\<open>hasOwnProperty\<close> the method is the
  inherited one and says whether the key is an own key; on a record with one, the call
  throws.
\<close>

lemma hasOwnProperty_inherited:
  "''hasOwnProperty'' \<notin> fst ` set ps \<Longrightarrow>
   hasOwnProperty name (Obj r ps) k = Inr (k \<in> fst ` set ps)"
  by (simp add: hasOwnProperty_def map_of_eq_None_iff)

lemma hasOwnProperty_shadowed:
  "''hasOwnProperty'' \<in> fst ` set ps \<Longrightarrow>
   hasOwnProperty name (Obj r ps) k = Inl (Error (name @ ''.hasOwnProperty is not a function''))"
  by (simp add: hasOwnProperty_def map_of_eq_None_iff)

lemma hasOwnProperty_returns:
  "hasOwnProperty name (Obj r ps) k = Inr b \<Longrightarrow>
   ''hasOwnProperty'' \<notin> fst ` set ps \<and> b = (k \<in> fst ` set ps)"
  by (auto simp: hasOwnProperty_def map_of_eq_None_iff split: if_splits)

text \<open>
  Both loops pass over the keys that raise nothing, and stop at the first key that
  does.
\<close>

lemma props_loop_skip:
  "list_all (\<lambda>j. hasOwnProperty ''expected'' expected j = Inr True \<and>
       hasOwnProperty ''actual'' actual j = Inr True \<and>
       inner_assertEquals (get expected j) (get actual j) = Inr ()) pre \<Longrightarrow>
   props_loop expected actual (pre @ rest) = props_loop expected actual rest"
  by (induction pre) auto

lemma extra_loop_skip:
  "list_all (\<lambda>j. hasOwnProperty ''actual'' actual j = Inr True \<and>
       hasOwnProperty ''expected'' expected j = Inr True) pre \<Longrightarrow>
   extra_loop expected actual (pre @ rest) = extra_loop expected actual rest"
  by (induction pre) auto

lemma props_loop_all_equal:
  assumes "list_all (\<lambda>j. hasOwnProperty ''expected'' expected j = Inr True \<and>
       hasOwnProperty ''actual'' actual j = Inr True \<and>
       inner_assertEquals (get expected j) (get actual j) = Inr ()) ks"
  shows "props_loop expected actual ks = Inr ()"
  using props_loop_skip [OF assms, of "[]"] by simp

lemma extra_loop_none:
  assumes "list_all (\<lambda>j. hasOwnProperty ''actual'' actual j = Inr True \<and>
       hasOwnProperty ''expected'' expected j = Inr True) ks"
  shows "extra_loop expected actual ks = Inr ()"
  using extra_loop_skip [OF assms, of "[]"] by simp


lemma records_first_failure:
  assumes "r \<noteq> r'"
    and "list_all (\<lambda>j. hasOwnProperty ''actual'' (Obj r' qs) j = Inr True \<and>
           inner_assertEquals (get (Obj r (pre @ (k, v) # post)) j) (get (Obj r' qs) j) = Inr ())
         (map fst pre)"
    and "hasOwnProperty ''expected'' (Obj r (pre @ (k, v) # post)) k = Inr True"
    and "hasOwnProperty ''actual'' (Obj r' qs) k = Inr True"
    and "inner_assertEquals (get (Obj r (pre @ (k, v) # post)) k) (get (Obj r' qs) k) = Inl error"
  shows "inner_assertEquals (Obj r (pre @ (k, v) # post)) (Obj r' qs) =
           Inl (Error (k @ divider (get (Obj r (pre @ (k, v) # post)) k) @ message error))"
proof -
  let ?expected = "Obj r (pre @ (k, v) # post)" and ?actual = "Obj r' qs"
  have "''hasOwnProperty'' \<notin> fst ` set (pre @ (k, v) # post)"
    using hasOwnProperty_returns [OF assms(3)] by (rule conjunct1)
  then have e: "hasOwnProperty ''expected'' ?expected j =
      Inr (j \<in> fst ` set (pre @ (k, v) # post))" for j
    by (rule hasOwnProperty_inherited)
  have "props_loop ?expected ?actual (map fst pre @ k # map fst post) =
        props_loop ?expected ?actual (k # map fst post)"
    using assms(2) by (intro props_loop_skip) (auto simp: list_all_iff e)
  also have "\<dots> = Inl (Error (k @ divider (get ?expected k) @ message error))"
    using assms(3,4,5) by simp
  finally show ?thesis using assms(1) by (simp add: inner_records)
qed








section \<open>Structural copies\<close>

text \<open>
  Two values with the same structure, in different objects, compare equal as long as
  no \<^verbatim>\<open>NaN\<close> and no own property named \<^verbatim>\<open>hasOwnProperty\<close> is in them: every rule of
  the comparator is satisfied at every level. This is the case of \<^verbatim>\<open>complexObject1\<close>
  and \<^verbatim>\<open>complexObject1Copy\<close> in \<^verbatim>\<open>runAll\<close>.
\<close>

lemma structural_copy_equal:
  "nan_free expected \<Longrightarrow> unshadowed expected \<Longrightarrow> same_structure expected actual \<Longrightarrow>
   inner_assertEquals expected actual = Inr ()"
proof (induction expected arbitrary: actual)
  case (Arr r xs)
  from Arr.prems(3) obtain r' ys
    where actual: "actual = Arr r' ys" and all: "list_all2 same_structure xs ys"
    by (cases actual) auto
  show ?case
  proof (cases "r = r'")
    case True
    with actual show ?thesis by (simp add: inner_assertEquals.simps)
  next
    case False
    have "array_loop (Arr r xs) (Arr r' ys) 0 = Inr ()"
    proof (rule array_loop_all_equal, intro allI impI)
      fix j
      assume "0 \<le> j \<and> j < length (elements (Arr r xs))"
      then have j: "j < length xs" by simp
      with all have "same_structure (xs ! j) (ys ! j)" and "j < length ys"
        by (auto dest: list_all2_nthD list_all2_lengthD)
      moreover from Arr.prems(1,2) j have "nan_free (xs ! j)" and "unshadowed (xs ! j)"
        by (simp_all add: list_all_length)
      ultimately show "inner_assertEquals (index (Arr r xs) j) (index (Arr r' ys) j) = Inr ()"
        using Arr.IH [of "xs ! j" "ys ! j"] j by (simp add: index_def)
    qed
    with False all actual show ?thesis
      by (simp add: inner_arrays list_all2_lengthD)
  qed
next
  case (Obj r ps)
  from Obj.prems(3) obtain r' qs
    where actual: "actual = Obj r' qs"
      and fwd: "list_all (\<lambda>(k, v). case map_of qs k of Some w \<Rightarrow> same_structure v w
                                   | None \<Rightarrow> False) ps"
      and bwd: "list_all (\<lambda>(k, w). map_of ps k \<noteq> None) qs"
    by (cases actual) auto
  from Obj.prems(2) have plain: "''hasOwnProperty'' \<notin> fst ` set ps"
    by (simp add: map_of_eq_None_iff)
  from bwd have sub: "fst ` set qs \<subseteq> fst ` set ps"
    by (auto simp: list_all_iff map_of_eq_None_iff)
  with plain have plain': "''hasOwnProperty'' \<notin> fst ` set qs" by auto
  have e: "hasOwnProperty ''expected'' (Obj r ps) j = Inr (j \<in> fst ` set ps)" for j
    using plain by (rule hasOwnProperty_inherited)
  have a: "hasOwnProperty ''actual'' (Obj r' qs) j = Inr (j \<in> fst ` set qs)" for j
    using plain' by (rule hasOwnProperty_inherited)
  show ?case
  proof (cases "r = r'")
    case True
    with actual show ?thesis by (simp add: inner_assertEquals.simps)
  next
    case False
    have "props_loop (Obj r ps) (Obj r' qs) (map fst ps) = Inr ()"
    proof (rule props_loop_all_equal, unfold list_all_iff, intro ballI conjI)
      fix k
      assume k: "k \<in> set (map fst ps)"
      then show "hasOwnProperty ''expected'' (Obj r ps) k = Inr True" by (simp add: e)
      from k obtain v where v: "map_of ps k = Some v"
        by (cases "map_of ps k") (auto simp: map_of_eq_None_iff)
      then have mem: "(k, v) \<in> set ps" by (rule map_of_SomeD)
      with fwd obtain w where w: "map_of qs k = Some w" and same: "same_structure v w"
        by (auto simp: list_all_iff split: option.splits)
      from w have "(k, w) \<in> set qs" by (rule map_of_SomeD)
      then have "k \<in> fst ` set qs" by force
      then show "hasOwnProperty ''actual'' (Obj r' qs) k = Inr True" by (simp add: a)
      from mem Obj.prems(1,2) have "nan_free v" and "unshadowed v"
        by (auto simp: list_all_iff)
      with same mem have "inner_assertEquals v w = Inr ()"
        by (intro Obj.IH [of "(k, v)" v w]) auto
      with v w show "inner_assertEquals (get (Obj r ps) k) (get (Obj r' qs) k) = Inr ()"
        by (simp add: get_def)
    qed
    moreover have "extra_loop (Obj r ps) (Obj r' qs) (map fst qs) = Inr ()"
      using sub by (intro extra_loop_none) (auto simp: list_all_iff e a)
    ultimately show ?thesis using False actual by (simp add: inner_records)
  qed
next
  case (Num x)
  then show ?case
    by (cases actual) (auto simp: inner_assertEquals.simps same_number_refl)
qed (auto simp: inner_assertEquals.simps)

lemma complexObject1_equals_its_copy:
  "inner_assertEquals complexObject1 complexObject1Copy = Inr ()"
proof (rule structural_copy_equal)
  show "nan_free complexObject1" by code_simp
  show "unshadowed complexObject1" by code_simp
  show "same_structure complexObject1 complexObject1Copy" by code_simp
qed

section \<open>Path segments\<close>

text \<open>
  Claim C1. The divider is empty before the message of an array child, a space before
  that of a primitive child and a dot before that of a record child. When the
  comparison of the elements at index \<open>i\<close> fails, after equal elements, the message is
  \<^verbatim>\<open>[i]\<close>, the divider of the expected element, and the inner message. The values of
  a key \<open>k\<close> are compared when the calls \<^verbatim>\<open>expected.hasOwnProperty(k)\<close> and
  \<^verbatim>\<open>actual.hasOwnProperty(k)\<close> have both returned true (a record with an own property
  named \<^verbatim>\<open>hasOwnProperty\<close> makes the call throw, and then no value is compared); when
  that comparison fails, after keys that are present and equal, the message is \<open>k\<close>,
  the divider of the expected value, and the inner message.
  \<^verbatim>\<open>complexObject1\<close> against \<^verbatim>\<open>complexObject2\<close>, whose nested \<^verbatim>\<open>propB\<close> is \<^verbatim>\<open>'c'\<close>,
  gives \<^verbatim>\<open>propB.propA[1].propB "b" but found "c"\<close>.
\<close>

theorem path_segment_and_divider:
  "divider (Arr r xs) = []
   \<and> (isPrimitive child \<longrightarrow> divider child = '' '')
   \<and> divider (Obj r ps) = ''.''
   \<and> (r \<noteq> r' \<and> length post = length post'
      \<and> list_all2 (\<lambda>x y. inner_assertEquals x y = Inr ()) pre pre'
      \<and> inner_assertEquals e a = Inl error \<longrightarrow>
        inner_assertEquals (Arr r (pre @ e # post)) (Arr r' (pre' @ a # post')) =
          Inl (Error (''['' @ digits (length pre) @ '']'' @ divider e @ message error)))
   \<and> (r \<noteq> r'
      \<and> list_all (\<lambda>j. hasOwnProperty ''actual'' (Obj r' qs) j = Inr True \<and>
            inner_assertEquals (get (Obj r (before @ (k, v) # after)) j) (get (Obj r' qs) j) = Inr ())
          (map fst before)
      \<and> hasOwnProperty ''expected'' (Obj r (before @ (k, v) # after)) k = Inr True
      \<and> hasOwnProperty ''actual'' (Obj r' qs) k = Inr True
      \<and> inner_assertEquals (get (Obj r (before @ (k, v) # after)) k) (get (Obj r' qs) k) = Inl error \<longrightarrow>
        inner_assertEquals (Obj r (before @ (k, v) # after)) (Obj r' qs) =
          Inl (Error (k @ divider (get (Obj r (before @ (k, v) # after)) k) @ message error)))
   \<and> inner_assertEquals complexObject1 complexObject2 =
        Inl (Error ''propB.propA[1].propB \"b\" but found \"c\"'')"
proof (intro conjI impI)
  show "inner_assertEquals complexObject1 complexObject2 =
        Inl (Error ''propB.propA[1].propB \"b\" but found \"c\"'')"
    by code_simp
next
  assume "r \<noteq> r' \<and> length post = length post'
      \<and> list_all2 (\<lambda>x y. inner_assertEquals x y = Inr ()) pre pre'
      \<and> inner_assertEquals e a = Inl error"
  then show "inner_assertEquals (Arr r (pre @ e # post)) (Arr r' (pre' @ a # post')) =
          Inl (Error (''['' @ digits (length pre) @ '']'' @ divider e @ message error))"
    by (simp add: arrays_first_failure)
next
  assume "r \<noteq> r'
      \<and> list_all (\<lambda>j. hasOwnProperty ''actual'' (Obj r' qs) j = Inr True \<and>
            inner_assertEquals (get (Obj r (before @ (k, v) # after)) j) (get (Obj r' qs) j) = Inr ())
          (map fst before)
      \<and> hasOwnProperty ''expected'' (Obj r (before @ (k, v) # after)) k = Inr True
      \<and> hasOwnProperty ''actual'' (Obj r' qs) k = Inr True
      \<and> inner_assertEquals (get (Obj r (before @ (k, v) # after)) k) (get (Obj r' qs) k) = Inl error"
  then show "inner_assertEquals (Obj r (before @ (k, v) # after)) (Obj r' qs) =
          Inl (Error (k @ divider (get (Obj r (before @ (k, v) # after)) k) @ message error))"
    by (intro records_first_failure) simp_all
qed (simp_all add: divider_def isPrimitive_def)

theorem path_segment_and_divider_witness:
  "isPrimitive (Str ''b'') \<and> divider (Str ''b'') = '' ''
   \<and> inner_assertEquals (Str ''b'') (Str ''c'') = Inl (Error ''\"b\" but found \"c\"'')
   \<and> hasOwnProperty ''expected'' (Obj 4 [(''propA'', Str ''a''), (''propB'', Str ''b'')]) ''propB''
       = Inr True
   \<and> hasOwnProperty ''actual'' (Obj 12 [(''propA'', Str ''a''), (''propB'', Str ''c'')]) ''propB''
       = Inr True
   \<and> inner_assertEquals
        (Obj 4 [(''propA'', Str ''a''), (''propB'', Str ''b'')])
        (Obj 12 [(''propA'', Str ''a''), (''propB'', Str ''c'')]) =
       Inl (Error ''propB \"b\" but found \"c\"'')
   \<and> inner_assertEquals
        (Arr 3 [Num (Whole 1), Obj 4 [(''propA'', Str ''a''), (''propB'', Str ''b'')], Num (Whole 3)])
        (Arr 11 [Num (Whole 1), Obj 12 [(''propA'', Str ''a''), (''propB'', Str ''c'')], Num (Whole 3)]) =
       Inl (Error ''[1].propB \"b\" but found \"c\"'')"
proof -
  have leaf: "inner_assertEquals (Str ''b'') (Str ''c'') = Inl (Error ''\"b\" but found \"c\"'')"
    by (simp add: inner_assertEquals.simps isPrimitive_def)
  have same: "inner_assertEquals (Str ''a'') (Str ''a'') = Inr ()"
    "inner_assertEquals (Num (Whole 1)) (Num (Whole 1)) = Inr ()"
    by (simp_all add: inner_assertEquals.simps Whole_def)
  have calls:
    "hasOwnProperty ''expected'' (Obj 4 [(''propA'', Str ''a''), (''propB'', Str ''b'')]) ''propB''
       = Inr True"
    "hasOwnProperty ''actual'' (Obj 12 [(''propA'', Str ''a''), (''propB'', Str ''c'')]) ''propB''
       = Inr True"
    "hasOwnProperty ''actual'' (Obj 12 [(''propA'', Str ''a''), (''propB'', Str ''c'')]) ''propA''
       = Inr True"
    by (simp_all add: hasOwnProperty_def)
  have field: "inner_assertEquals
        (Obj 4 [(''propA'', Str ''a''), (''propB'', Str ''b'')])
        (Obj 12 [(''propA'', Str ''a''), (''propB'', Str ''c'')]) =
       Inl (Error ''propB \"b\" but found \"c\"'')"
    using leaf same calls
      path_segment_and_divider [where r = 4 and r' = 12 and before = "[(''propA'', Str ''a'')]"
        and k = "''propB''" and v = "Str ''b''" and after = "[]"
        and qs = "[(''propA'', Str ''a''), (''propB'', Str ''c'')]"
        and error = "Error ''\"b\" but found \"c\"''"]
    by (simp add: get_def divider_def isPrimitive_def)
  have element: "inner_assertEquals
        (Arr 3 [Num (Whole 1), Obj 4 [(''propA'', Str ''a''), (''propB'', Str ''b'')], Num (Whole 3)])
        (Arr 11 [Num (Whole 1), Obj 12 [(''propA'', Str ''a''), (''propB'', Str ''c'')], Num (Whole 3)]) =
       Inl (Error ''[1].propB \"b\" but found \"c\"'')"
    using field same
      path_segment_and_divider [where r = 3 and r' = 11 and pre = "[Num (Whole 1)]"
        and pre' = "[Num (Whole 1)]" and post = "[Num (Whole 3)]" and post' = "[Num (Whole 3)]"
        and e = "Obj 4 [(''propA'', Str ''a''), (''propB'', Str ''b'')]"
        and a = "Obj 12 [(''propA'', Str ''a''), (''propB'', Str ''c'')]"
        and error = "Error ''propB \"b\" but found \"c\"''"]
    by (simp add: digits.simps divider_def isPrimitive_def)
  from leaf field element calls path_segment_and_divider [where child = "Str ''b''"]
  show ?thesis by (simp add: isPrimitive_def)
qed

end
